theory Spec2Isabelle
  imports Complex_Main "HOL-Library.AList"
begin

section \<open>Python values, exceptions and string primitives\<close>

text \<open>
  The module \<^verbatim>\<open>pychess_svg.py\<close> is embedded function by function. Strings are
  \<^typ>\<open>string\<close> restricted to ASCII (one \<^typ>\<open>char\<close> per code point), Python's unbounded
  integers are \<^typ>\<open>int\<close>, and a Python float is the real number it stands for (the
  anchors of the arrows are small multiples of one half, which floats hold exactly; an
  opacity is one quotient of two small integers). A raised exception is the left summand
  of a result.
\<close>

datatype exn =
  KeyError | ValueError | IndexError | AttributeError | ParseError | OSError
  | ZeroDivisionError


text \<open>
  Text that ends up in the document or is printed is a sequence of pieces: literal text,
  a float whose decimal rendering (Python's \<^verbatim>\<open>str\<close> of a float) is left symbolic,
  and the text \<^verbatim>\<open>str(e)\<close> of a caught exception, given by its class and by the
  operand it was raised on (the path that could not be opened, the text that could not
  be parsed or converted).
\<close>

datatype frag = S string | F real | X exn string

type_synonym xtext = "frag list"

text \<open>
  The values the module converts with \<^verbatim>\<open>str\<close>: \<^verbatim>\<open>None\<close>, a string, an integer, a
  float, and a string that was formatted from floats.
\<close>

datatype pyval = PNone | PStr string | PInt int | PFloat real | PFmt xtext

fun truthy :: "pyval \<Rightarrow> bool" where
  "truthy PNone = False"
| "truthy (PStr s) = (s \<noteq> [])"
| "truthy (PInt i) = (i \<noteq> 0)"
| "truthy (PFloat r) = (r \<noteq> 0)"
| "truthy (PFmt t) = (t \<noteq> [])"

definition is_space :: "char \<Rightarrow> bool" where
  "is_space c =
     (let n = (of_char c :: nat) in (9 \<le> n \<and> n \<le> 13) \<or> (28 \<le> n \<and> n \<le> 32))"

definition py_startswith :: "string \<Rightarrow> string \<Rightarrow> bool" where
  "py_startswith s p = (take (length p) s = p)"

definition py_endswith :: "string \<Rightarrow> string \<Rightarrow> bool" where
  "py_endswith s p = (length p \<le> length s \<and> drop (length s - length p) s = p)"

text \<open>\<^verbatim>\<open>s.find(sub)\<close>: the index of the first occurrence, or -1.\<close>

fun find_from :: "string \<Rightarrow> string \<Rightarrow> nat \<Rightarrow> int" where
  "find_from sub [] i = (if sub = [] then int i else - 1)"
| "find_from sub (c # cs) i =
     (if py_startswith (c # cs) sub then int i else find_from sub cs (Suc i))"

definition py_find :: "string \<Rightarrow> string \<Rightarrow> int" where
  "py_find s sub = find_from sub s 0"

definition py_in :: "string \<Rightarrow> string \<Rightarrow> bool" where
  "py_in sub s = (py_find s sub \<noteq> - 1)"

text \<open>\<^verbatim>\<open>s[start:end]\<close> with Python's treatment of negative and overlong indices.\<close>

definition clip_index :: "nat \<Rightarrow> int \<Rightarrow> nat" where
  "clip_index n i = (if i < 0 then nat (max 0 (int n + i)) else min (nat i) n)"

definition py_slice :: "string \<Rightarrow> int \<Rightarrow> int \<Rightarrow> string" where
  "py_slice s b e =
     (let b' = clip_index (length s) b; e' = clip_index (length s) e
      in take (e' - b') (drop b' s))"

definition py_strip :: "string \<Rightarrow> string" where
  "py_strip s = rev (dropWhile is_space (rev (dropWhile is_space s)))"

text \<open>\<^verbatim>\<open>s.split()\<close>: the maximal runs of characters that are not whitespace.\<close>

fun split_ws :: "string \<Rightarrow> string \<Rightarrow> string list" where
  "split_ws cur [] = (if cur = [] then [] else [cur])"
| "split_ws cur (c # cs) =
     (if is_space c then (if cur = [] then split_ws [] cs else cur # split_ws [] cs)
      else split_ws (cur @ [c]) cs)"

definition py_split :: "string \<Rightarrow> string list" where
  "py_split s = split_ws [] s"

text \<open>\<^verbatim>\<open>s.split(sep, 1)[-1]\<close>: what follows the first \<^verbatim>\<open>sep\<close>, or all of \<^verbatim>\<open>s\<close>.\<close>

definition py_after_first :: "string \<Rightarrow> string \<Rightarrow> string" where
  "py_after_first s sep =
     (let i = py_find s sep in if i = - 1 then s else drop (nat i + length sep) s)"

text \<open>\<^verbatim>\<open>s.replace(old, '')\<close> for a non-empty \<^verbatim>\<open>old\<close>.\<close>

fun py_remove :: "string \<Rightarrow> string \<Rightarrow> string" where
  "py_remove old [] = []"
| "py_remove old (c # cs) =
     (if old \<noteq> [] \<and> py_startswith (c # cs) old
      then py_remove old (drop (length old - 1) cs)
      else c # py_remove old cs)"

definition lower_char :: "char \<Rightarrow> char" where
  "lower_char c =
     (let n = (of_char c :: nat) in if 65 \<le> n \<and> n \<le> 90 then char_of (n + 32) else c)"

definition upper_char :: "char \<Rightarrow> char" where
  "upper_char c =
     (let n = (of_char c :: nat) in if 97 \<le> n \<and> n \<le> 122 then char_of (n - 32) else c)"

definition py_lower :: "string \<Rightarrow> string" where
  "py_lower s = map lower_char s"

text \<open>\<^verbatim>\<open>sep.join(xs)\<close>.\<close>

fun py_join :: "string \<Rightarrow> string list \<Rightarrow> string" where
  "py_join sep [] = []"
| "py_join sep [x] = x"
| "py_join sep (x # y # ys) = x @ sep @ py_join sep (y # ys)"

text \<open>Decimal rendering of an integer (\<^verbatim>\<open>str(n)\<close>, \<^verbatim>\<open>%d\<close>).\<close>

function str_nat :: "nat \<Rightarrow> string" where
  "str_nat n =
     (if n < 10 then [char_of (48 + n)]
      else str_nat (n div 10) @ [char_of (48 + n mod 10)])"
  by pat_completeness auto
termination
  by (relation "measure (\<lambda>n. n)") auto

definition str_int :: "int \<Rightarrow> string" where
  "str_int i = (if i < 0 then CHR ''-'' # str_nat (nat (- i)) else str_nat (nat i))"

fun py_str :: "pyval \<Rightarrow> xtext" where
  "py_str PNone = [S ''None'']"
| "py_str (PStr s) = [S s]"
| "py_str (PInt i) = [S (str_int i)]"
| "py_str (PFloat r) = [F r]"
| "py_str (PFmt t) = t"

text \<open>The sequencing of fallible steps: the first exception ends the computation.\<close>

fun bnd :: "exn + 'a \<Rightarrow> ('a \<Rightarrow> exn + 'b) \<Rightarrow> exn + 'b" where
  "bnd (Inl e) f = Inl e"
| "bnd (Inr x) f = f x"

subsection \<open>The integer parser \<^verbatim>\<open>int(s, base)\<close>\<close>

text \<open>
  Python's \<^verbatim>\<open>int(s, base)\<close> on a string strips surrounding whitespace, takes an
  optional sign, for base 16 an optional \<^verbatim>\<open>0x\<close> prefix, and then digits of the base,
  which single underscores may separate. Anything else raises \<^verbatim>\<open>ValueError\<close>
  (\<^term>\<open>None\<close> here). On an ASCII string the whitespace it strips is that of C
  (tab to carriage return, and the blank): the separators 0x1C to 0x1F, which
  \<^verbatim>\<open>str.strip\<close> and \<^verbatim>\<open>str.split\<close> take for whitespace, are not among it.
\<close>

definition is_c_space :: "char \<Rightarrow> bool" where
  "is_c_space c = (let n = (of_char c :: nat) in (9 \<le> n \<and> n \<le> 13) \<or> n = 32)"

definition c_strip :: "string \<Rightarrow> string" where
  "c_strip s = rev (dropWhile is_c_space (rev (dropWhile is_c_space s)))"

definition digit_val :: "char \<Rightarrow> nat option" where
  "digit_val c =
     (let n = (of_char c :: nat) in
      if 48 \<le> n \<and> n \<le> 57 then Some (n - 48)
      else if 97 \<le> n \<and> n \<le> 122 then Some (n - 87)
      else if 65 \<le> n \<and> n \<le> 90 then Some (n - 55)
      else None)"

fun parse_digits :: "nat \<Rightarrow> string \<Rightarrow> bool \<Rightarrow> nat \<Rightarrow> nat option" where
  "parse_digits b [] prev_us acc = (if prev_us then None else Some acc)"
| "parse_digits b (c # cs) prev_us acc =
     (if c = CHR ''_'' then (if prev_us then None else parse_digits b cs True acc)
      else (case digit_val c of
              None \<Rightarrow> None
            | Some d \<Rightarrow> if d < b then parse_digits b cs False (acc * b + d) else None))"

definition skip_prefix :: "nat \<Rightarrow> string \<Rightarrow> string" where
  "skip_prefix b s =
     (if b = 16 \<and> (py_startswith s ''0x'' \<or> py_startswith s ''0X'')
      then (let r = drop 2 s in if py_startswith r ''_'' then drop 1 r else r)
      else s)"

definition py_int :: "nat \<Rightarrow> string \<Rightarrow> int option" where
  "py_int b s =
     (let t = c_strip s;
          neg = py_startswith t ''-'';
          u = (if py_startswith t ''-'' \<or> py_startswith t ''+'' then drop 1 t else t);
          v = skip_prefix b u
      in if v = [] \<or> py_startswith v ''_'' then None
         else (case parse_digits b v False 0 of
                 None \<Rightarrow> None
               | Some n \<Rightarrow> Some (if neg then - int n else int n)))"

section \<open>ColorResolver\<close>

text \<open>
  The module's private names start with an underscore; here \<^verbatim>\<open>_color\<close> is
  \<open>x_color\<close>, and likewise for the others.
\<close>

definition DEFAULT_COLORS :: "(string \<times> string) list" where
  "DEFAULT_COLORS =
     [(''square light'', ''#f0d9b5''),
      (''square dark'', ''#b58863''),
      (''square dark lastmove'', ''#aaa23b''),
      (''square light lastmove'', ''#cdd16a''),
      (''margin'', ''#212121''),
      (''inner border'', ''#111''),
      (''outer border'', ''#111''),
      (''coord'', ''#333333''),
      (''arrow green'', ''#15781B80''),
      (''arrow red'', ''#88202080''),
      (''arrow yellow'', ''#e68f00b3''),
      (''arrow blue'', ''#00308880'')]"

definition x_color :: "string \<Rightarrow> string \<times> real" where
  "x_color color =
     (if py_startswith color ''#'' then
        (if length color = 5 then
           (case py_int 16 [color ! 4] of
              Some n \<Rightarrow> (take 4 color, real_of_int n / 15)
            | None \<Rightarrow> (color, 1))
         else if length color = 9 then
           (case py_int 16 (drop 7 color) of
              Some n \<Rightarrow> (take 7 color, real_of_int n / 255)
            | None \<Rightarrow> (color, 1))
         else (color, 1))
      else (color, 1))"

text \<open>
  \<^verbatim>\<open>colors.get(color, DEFAULT_COLORS[color])\<close>: the default is an argument, so
  the palette is indexed before the override map is consulted.
\<close>

definition x_select_color :: "(string \<times> string) list \<Rightarrow> string \<Rightarrow> exn + (string \<times> real)" where
  "x_select_color colors color =
     (case map_of DEFAULT_COLORS color of
        None \<Rightarrow> Inl KeyError
      | Some d \<Rightarrow> Inr (x_color (case map_of colors color of Some v \<Rightarrow> v | None \<Rightarrow> d)))"

section \<open>The document tree and the collaborators\<close>

text \<open>
  An element of the output document (\<^verbatim>\<open>xml.etree.ElementTree.Element\<close>): tag,
  attributes in insertion order, text, children. The module returns the serialised
  tree; the model returns the tree.
\<close>

datatype elem =
  Elem (tag: string) (attrib: "(string \<times> xtext) list") (etext: "string option")
    (children: "elem list")

text \<open>An element as the XML parser returns it: its attribute values are literal text.\<close>

datatype src_elem =
  SrcElem (src_tag: string) (src_attrib: "(string \<times> string) list")
    (src_text: "string option") (src_children: "src_elem list")

primrec lift :: "src_elem \<Rightarrow> elem" where
  "lift (SrcElem t a x cs) = Elem t (map (\<lambda>(k, v). (k, [S v])) a) x (map lift cs)"

definition set_attr :: "elem \<Rightarrow> string \<Rightarrow> xtext \<Rightarrow> elem" where
  "set_attr e k v = Elem (tag e) (AList.update k v (attrib e)) (etext e) (children e)"

definition append_child :: "elem \<Rightarrow> elem \<Rightarrow> elem" where
  "append_child e c = Elem (tag e) (attrib e) (etext e) (children e @ [c])"

definition append_children :: "elem \<Rightarrow> elem list \<Rightarrow> elem" where
  "append_children e cs = Elem (tag e) (attrib e) (etext e) (children e @ cs)"

text \<open>\<^verbatim>\<open>e.insert(i, c)\<close> for a non-negative index.\<close>

definition insert_child :: "elem \<Rightarrow> nat \<Rightarrow> elem \<Rightarrow> elem" where
  "insert_child e i c =
     Elem (tag e) (attrib e) (etext e) (take i (children e) @ [c] @ drop i (children e))"

record piece_t =
  p_symbol :: string
  p_color :: bool

record board_t =
  b_rows :: int
  b_cols :: int
  b_piece_at :: "int \<Rightarrow> int \<Rightarrow> piece_t option"
  b_truthy :: bool

text \<open>
  What \<^verbatim>\<open>svgutils.compose.SVG(file)\<close> returns: the declared width, if any, and the
  text that \<^verbatim>\<open>%s\<close> gives for \<^verbatim>\<open>tostring(svg.root)\<close> after an optional \<^verbatim>\<open>scale\<close>.
\<close>

record figure =
  fig_width :: "real option"
  fig_markup :: "real option \<Rightarrow> string"

text \<open>
  The file system, the libraries (\<^verbatim>\<open>os.path\<close>, \<^verbatim>\<open>ElementTree\<close>, \<^verbatim>\<open>svgutils\<close>,
  \<^verbatim>\<open>base64\<close>, \<^verbatim>\<open>float\<close>) and the tables of the \<^verbatim>\<open>pychess\<close> module are not part of
  the source: they are parameters. A failed library call is \<^term>\<open>None\<close> or an exception.
\<close>

record env =
  isfile :: "string \<Rightarrow> bool"
  open_lines :: "string \<Rightarrow> string list option"
  open_text :: "string \<Rightarrow> string option"
  open_bytes :: "string \<Rightarrow> string option"
  normpath :: "string \<Rightarrow> string"
  fromstring :: "string \<Rightarrow> src_elem option"
  float_of :: "string \<Rightarrow> real option"
  b64encode :: "string \<Rightarrow> string"
  transform_viewBox :: "string \<Rightarrow> exn + string option"
  compose_SVG :: "string \<Rightarrow> exn + figure"
  COLOR_NAMES :: "bool \<Rightarrow> string"
  COORDS :: "pyval \<Rightarrow> ((int \<Rightarrow> int \<Rightarrow> string) \<times> (int \<Rightarrow> int \<Rightarrow> string)) option"

definition SQUARE_SIZE :: int where
  "SQUARE_SIZE = 45"

definition STATIC_PATH :: string where
  "STATIC_PATH = ''pychess-variants/static/''"

text \<open>\<^verbatim>\<open>os.path.join\<close> (POSIX).\<close>

definition join2 :: "string \<Rightarrow> string \<Rightarrow> string" where
  "join2 a b =
     (if py_startswith b ''/'' then b
      else if a = [] \<or> py_endswith a ''/'' then a @ b
      else a @ ''/'' @ b)"

definition path_join :: "string \<Rightarrow> string list \<Rightarrow> string" where
  "path_join a ps = foldl join2 a ps"

section \<open>ThemeRegistry\<close>

text \<open>
  The two module-level dictionaries, with what the functions print and the file
  operations they perform (recorded so that statements about I/O can be made).
\<close>

datatype io_event = IsFile string | OpenRead string | LoadSvg string

record registry =
  SVG_PIECES :: "string \<rightharpoonup> (string \<times> string) list"
  SVG_PATH_PIECES :: "string \<rightharpoonup> (string \<times> string) list"
  printed :: "string list"
  io_trace :: "io_event list"

text \<open>
  One line of the stylesheet scan. The accumulator is \<open>(color, symbol, url, promoted)\<close>
  and the path dictionary of the theme.
\<close>

type_synonym scan = "(string \<times> string \<times> string \<times> bool) \<times> (string \<times> string) list"

definition scan_line :: "scan \<Rightarrow> string \<Rightarrow> scan" where
  "scan_line acc line =
     (case acc of ((color0, symbol0, url0, promoted0), paths) \<Rightarrow>
      if py_strip line = [] then acc
      else
        (let has_piece = py_in ''piece.'' line;
             color1 = (if has_piece
                       then (if py_in ''white'' line \<or> py_in ''ally'' line
                             then ''white'' else ''black'')
                       else color0);
             symbol1 = (if has_piece
                        then py_slice line (py_find line ''piece.'' + 6) (py_find line ''-piece'')
                        else symbol0);
             promoted1 = (if has_piece \<and> py_in ''promoted'' line then True else promoted0);
             url1 = (if py_in ''url'' line
                     then py_slice line (py_find line ''url('' + 5) (py_find line '')'' - 1)
                     else url0)
         in if symbol1 \<noteq> [] \<and> url1 \<noteq> [] then
              (let symbol2 = (if color1 = ''white''
                              then butlast symbol1 @ [upper_char (last symbol1)]
                              else symbol1);
                   symbol3 = (if promoted1 then ''p'' @ symbol2 else symbol2)
               in (([], [], [], False), AList.update symbol3 url1 paths))
            else ((color1, symbol1, url1, promoted1), paths)))"

definition css_path_of :: "string \<Rightarrow> string" where
  "css_path_of css = path_join STATIC_PATH [''piece'', css @ ''.css'']"

definition get_svg_pieces_from_css :: "env \<Rightarrow> registry \<Rightarrow> string \<Rightarrow> (exn + unit) \<times> registry" where
  "get_svg_pieces_from_css E st css =
     (let st1 = st\<lparr>SVG_PIECES := (SVG_PIECES st)(css \<mapsto> []),
                    SVG_PATH_PIECES := (SVG_PATH_PIECES st)(css \<mapsto> [])\<rparr>;
          css_path = css_path_of css;
          st2 = st1\<lparr>io_trace := io_trace st1 @ [IsFile css_path]\<rparr>
      in if \<not> isfile E css_path then
           (Inr (), st2\<lparr>printed := printed st2 @ [''ERROR: FileNotFoundError '' @ css_path]\<rparr>)
         else
           (let st3 = st2\<lparr>io_trace := io_trace st2 @ [OpenRead css_path]\<rparr>
            in case open_lines E css_path of
                 None \<Rightarrow> (Inl OSError, st3)
               | Some ls \<Rightarrow>
                   (Inr (), st3\<lparr>SVG_PATH_PIECES :=
                              (SVG_PATH_PIECES st3)
                                (css \<mapsto> snd (foldl scan_line (([], [], [], False), []) ls))\<rparr>)))"

text \<open>\<^verbatim>\<open>float(viewBox.split()[2])\<close>.\<close>

definition part_float :: "env \<Rightarrow> string list \<Rightarrow> nat \<Rightarrow> exn + real" where
  "part_float E parts i =
     (if i < length parts
      then (case float_of E (parts ! i) of None \<Rightarrow> Inl ValueError | Some r \<Rightarrow> Inr r)
      else Inl IndexError)"

definition read_piece_svg :: "env \<Rightarrow> registry \<Rightarrow> string \<Rightarrow> piece_t \<Rightarrow> (exn + unit) \<times> registry" where
  "read_piece_svg E st css piece =
     (let symbol = p_symbol piece;
          piece_name = symbol @ ''-piece''
      in case SVG_PATH_PIECES st css of
           None \<Rightarrow> (Inl KeyError, st)
         | Some paths \<Rightarrow>
        (case map_of paths symbol of
           None \<Rightarrow> (Inr (), st)
         | Some piece_svg \<Rightarrow>
        (let orig_file = normpath E (path_join STATIC_PATH [''piece'', css, ''..'', piece_svg]);
             st1 = st\<lparr>io_trace := io_trace st @ [IsFile orig_file]\<rparr>
         in if \<not> isfile E orig_file then
              (Inr (), st1\<lparr>printed := printed st1 @ [''ERROR: FileNotFoundError '' @ orig_file]\<rparr>)
            else if drop (length orig_file - 3) orig_file \<noteq> ''svg'' then
              (Inr (), st1\<lparr>printed := printed st1
                           @ [''ERROR: '' @ orig_file @ '' is not in .svg format'']\<rparr>)
            else
        (let st2 = st1\<lparr>io_trace := io_trace st1 @ [LoadSvg orig_file]\<rparr>
         in case transform_viewBox E orig_file of
              Inl e \<Rightarrow> (Inl e, st2)
            | Inr viewBox \<Rightarrow>
        (let st3 = st2\<lparr>io_trace := io_trace st2 @ [LoadSvg orig_file]\<rparr>
         in case compose_SVG E orig_file of
              Inl e \<Rightarrow>
                (if e = AttributeError then
                   (Inl e, st3\<lparr>printed := printed st3
                              @ [''ERROR: Possible '' @ orig_file @ '' referenced in '' @ css
                                 @ ''.css has no 'width/height'' @ [CHR 0x27]]\<rparr>)
                 else (Inl e, st3))
            | Inr svg \<Rightarrow>
        (let store = (\<lambda>frag. case SVG_PIECES st3 css of
                        None \<Rightarrow> (Inl KeyError, st3)
                      | Some frags \<Rightarrow>
                          (Inr (), st3\<lparr>SVG_PIECES :=
                                     (SVG_PIECES st3)(css \<mapsto> AList.update symbol frag frags)\<rparr>));
             scaled = (\<lambda>width.
                        if width \<noteq> real_of_int SQUARE_SIZE then
                          (if width = 0 then (Inl ZeroDivisionError, st3)
                           else store (''<g id=\"'' @ COLOR_NAMES E (p_color piece) @ ''-''
                                       @ piece_name @ ''\">''
                                       @ fig_markup svg (Some (real_of_int SQUARE_SIZE / width))
                                       @ ''</g>''))
                        else store (''<g id=\"'' @ COLOR_NAMES E (p_color piece) @ ''-''
                                    @ piece_name @ ''\">'' @ fig_markup svg None @ ''</g>''))
         in case viewBox of
              Some vb \<Rightarrow>
                (case part_float E (py_split vb) 2 of
                   Inl e \<Rightarrow> (Inl e, st3)
                 | Inr width \<Rightarrow> scaled width)
            | None \<Rightarrow>
                (case fig_width svg of
                   Some width \<Rightarrow> scaled width
                 | None \<Rightarrow> store [])))))))"

section \<open>The single-piece renderer\<close>

definition x_svg :: "int \<Rightarrow> int \<Rightarrow> pyval \<Rightarrow> pyval \<Rightarrow> elem" where
  "x_svg viewbox_x viewbox_y width height =
     (let svg = Elem ''svg''
                  [(''xmlns'', [S ''http://www.w3.org/2000/svg'']),
                   (''version'', [S ''1.1'']),
                   (''xmlns:xlink'', [S ''http://www.w3.org/1999/xlink'']),
                   (''viewBox'',
                    [S (''0 0 '' @ str_int viewbox_x @ '' '' @ str_int viewbox_y)])]
                  None [];
          svg1 = (if width \<noteq> PNone then set_attr svg ''width'' (py_str width) else svg);
          svg2 = (if height \<noteq> PNone then set_attr svg1 ''height'' (py_str height) else svg1)
      in svg2)"

definition x_attrs :: "(string \<times> pyval) list \<Rightarrow> (string \<times> xtext) list" where
  "x_attrs attrs = map (\<lambda>(k, v). (k, py_str v)) (filter (\<lambda>(k, v). v \<noteq> PNone) attrs)"

definition piece :: "env \<Rightarrow> registry \<Rightarrow> string \<Rightarrow> piece_t \<Rightarrow> pyval \<Rightarrow> exn + elem" where
  "piece E st css pc sz =
     (let svg = x_svg SQUARE_SIZE SQUARE_SIZE sz sz
      in case SVG_PIECES st css of
           None \<Rightarrow> Inl KeyError
         | Some frags \<Rightarrow>
             (case map_of frags (p_symbol pc) of
                None \<Rightarrow> Inl KeyError
              | Some frag \<Rightarrow>
                  (case fromstring E frag of
                     None \<Rightarrow> Inl ParseError
                   | Some e \<Rightarrow> Inr (append_child svg (lift e)))))"

section \<open>CoordinateMapper\<close>

definition square_file :: "string \<Rightarrow> exn + int" where
  "square_file square =
     (case square of [] \<Rightarrow> Inl IndexError | c # _ \<Rightarrow> Inr (int (of_char c) - 97))"

definition square_rank :: "string \<Rightarrow> exn + int" where
  "square_rank square =
     (case py_int 10 (drop 1 square) of None \<Rightarrow> Inl ValueError | Some n \<Rightarrow> Inr (n - 1))"

text \<open>
  The pair \<^verbatim>\<open>(board.rows - square_rank(sq) - 1, square_file(sq))\<close>; the rank is
  computed first.
\<close>

definition cell_of :: "int \<Rightarrow> string \<Rightarrow> exn + (int \<times> int)" where
  "cell_of rows square =
     bnd (square_rank square) (\<lambda>r. bnd (square_file square) (\<lambda>f. Inr (rows - r - 1, f)))"

fun parse_squares :: "int \<Rightarrow> string list \<Rightarrow> exn + (int \<times> int) list" where
  "parse_squares rows [] = Inr []"
| "parse_squares rows (square # rest) =
     bnd (cell_of rows square) (\<lambda>c. bnd (parse_squares rows rest) (\<lambda>cs. Inr (c # cs)))"

text \<open>
  The pixel anchor of an arrow end (the expressions for \<^verbatim>\<open>xtail\<close>, \<^verbatim>\<open>ytail\<close>,
  \<^verbatim>\<open>xhead\<close>, \<^verbatim>\<open>yhead\<close>), with \<^verbatim>\<open>x_corr = board.cols - 0.5\<close> and
  \<^verbatim>\<open>y_corr = board.rows - 0.5\<close>.
\<close>

definition anchor_x :: "int \<Rightarrow> int \<Rightarrow> pyval \<Rightarrow> int \<Rightarrow> bool \<Rightarrow> int \<Rightarrow> int \<Rightarrow> real" where
  "anchor_x outer_border margin coordinates inner_border orientation cols file =
     real_of_int outer_border + real_of_int (if truthy coordinates then margin else 0)
       + real_of_int inner_border
       + (if orientation then real_of_int file + 0.5
          else (real_of_int cols - 0.5) - real_of_int file) * real_of_int SQUARE_SIZE"

definition anchor_y :: "int \<Rightarrow> int \<Rightarrow> pyval \<Rightarrow> int \<Rightarrow> bool \<Rightarrow> int \<Rightarrow> int \<Rightarrow> real" where
  "anchor_y outer_border margin coordinates inner_border orientation rows rank =
     real_of_int outer_border + real_of_int (if truthy coordinates then margin else 0)
       + real_of_int inner_border
       + (if orientation then (real_of_int rows - 0.5) - real_of_int rank
          else real_of_int rank + 0.5) * real_of_int SQUARE_SIZE"

definition display_cell :: "board_t \<Rightarrow> bool \<Rightarrow> int \<times> int \<Rightarrow> int \<times> int" where
  "display_cell b orientation yx =
     (case yx of (y_index, x_index) \<Rightarrow>
        if orientation then (y_index, x_index)
        else (b_rows b - y_index - 1, b_cols b - x_index - 1))"

text \<open>The cells in the order of the two nested \<^verbatim>\<open>range\<close> loops, as \<open>(y_index, x_index)\<close>.\<close>

definition grid :: "board_t \<Rightarrow> (int \<times> int) list" where
  "grid b = concat (map (\<lambda>y. map (\<lambda>x. (y, x)) [0..b_cols b - 1]) [0..b_rows b - 1])"

fun collect :: "('a \<Rightarrow> exn + 'b list) \<Rightarrow> 'a list \<Rightarrow> exn + 'b list" where
  "collect f [] = Inr []"
| "collect f (x # xs) = bnd (f x) (\<lambda>ys. bnd (collect f xs) (\<lambda>zs. Inr (ys @ zs)))"

section \<open>ArrowRenderer\<close>

text \<open>An arrow object with \<^verbatim>\<open>tail\<close>, \<^verbatim>\<open>head\<close> and \<^verbatim>\<open>color\<close>, or a plain pair.\<close>

datatype arrow = Arrow string string string | Pair string string

fun arrow_parts :: "arrow \<Rightarrow> string \<times> string \<times> string" where
  "arrow_parts (Arrow t h c) = (t, h, c)"
| "arrow_parts (Pair t h) = (t, h, ''green'')"

text \<open>
  The \<^verbatim>\<open>try\<close> around \<^verbatim>\<open>_select_color\<close>: only \<^verbatim>\<open>KeyError\<close> is caught, and then the
  arrow keeps its colour word and is opaque. Without a colour mapping (\<^verbatim>\<open>colors=None\<close>)
  the call \<^verbatim>\<open>colors.get\<close> raises \<^verbatim>\<open>AttributeError\<close>, which is not caught.
\<close>

definition resolve_arrow_color :: "(string \<times> string) list option \<Rightarrow> string \<Rightarrow> exn + (string \<times> real)" where
  "resolve_arrow_color colors color =
     (case colors of
        None \<Rightarrow> Inl AttributeError
      | Some cs \<Rightarrow>
          (case x_select_color cs (py_join '' '' [''arrow'', color]) of
             Inl e \<Rightarrow> if e = KeyError then Inr (color, 1) else Inl e
           | Inr r \<Rightarrow> Inr r))"

definition opacity_attr :: "real \<Rightarrow> pyval" where
  "opacity_attr opacity = (if opacity < 1 then PFloat opacity else PNone)"

definition arrow_elems ::
  "board_t \<Rightarrow> bool \<Rightarrow> int \<Rightarrow> int \<Rightarrow> pyval \<Rightarrow> int \<Rightarrow> (string \<times> string) list option \<Rightarrow> arrow
   \<Rightarrow> exn + elem list" where
  "arrow_elems b orientation outer_border margin coordinates inner_border colors arr =
     (case arrow_parts arr of (tail, head, color0) \<Rightarrow>
      bnd (resolve_arrow_color colors color0) (\<lambda>(color, opacity).
      bnd (square_file tail) (\<lambda>tail_file.
      bnd (square_rank tail) (\<lambda>tail_rank.
      bnd (square_file head) (\<lambda>head_file.
      bnd (square_rank head) (\<lambda>head_rank.
        (let ax = anchor_x outer_border margin coordinates inner_border orientation (b_cols b);
             ay = anchor_y outer_border margin coordinates inner_border orientation (b_rows b);
             xtail = ax tail_file; ytail = ay tail_rank;
             xhead = ax head_file; yhead = ay head_rank
         in if (head_file, head_rank) = (tail_file, tail_rank) then
              Inr [Elem ''circle''
                     (x_attrs
                        [(''cx'', PFloat xhead),
                         (''cy'', PFloat yhead),
                         (''r'', PFloat (real_of_int SQUARE_SIZE * 0.93 / 2)),
                         (''stroke-width'', PFloat (real_of_int SQUARE_SIZE * 0.07)),
                         (''stroke'', PStr color),
                         (''opacity'', opacity_attr opacity),
                         (''fill'', PStr ''none''),
                         (''class'', PStr ''circle'')])
                     None []]
            else
              (let marker_size = 0.75 * real_of_int SQUARE_SIZE;
                   marker_margin = 0.1 * real_of_int SQUARE_SIZE;
                   dx = xhead - xtail; dy = yhead - ytail;
                   hypot = sqrt (dx * dx + dy * dy)
               in if hypot = 0 then Inl ZeroDivisionError
                  else
                    (let shaft_x = xhead - dx * (marker_size + marker_margin) / hypot;
                         shaft_y = yhead - dy * (marker_size + marker_margin) / hypot;
                         xtip = xhead - dx * marker_margin / hypot;
                         ytip = yhead - dy * marker_margin / hypot
                     in Inr [Elem ''line''
                               (x_attrs
                                  [(''x1'', PFloat xtail),
                                   (''y1'', PFloat ytail),
                                   (''x2'', PFloat shaft_x),
                                   (''y2'', PFloat shaft_y),
                                   (''stroke'', PStr color),
                                   (''opacity'', opacity_attr opacity),
                                   (''stroke-width'', PFloat (real_of_int SQUARE_SIZE * 0.2)),
                                   (''stroke-linecap'', PStr ''butt''),
                                   (''class'', PStr ''arrow'')])
                               None [],
                             Elem ''polygon''
                               (x_attrs
                                  [(''points'',
                                    PFmt [F xtip, S '','', F ytip, S '' '',
                                          F (shaft_x + dy * 0.5 * marker_size / hypot), S '','',
                                          F (shaft_y - dx * 0.5 * marker_size / hypot), S '' '',
                                          F (shaft_x - dy * 0.5 * marker_size / hypot), S '','',
                                          F (shaft_y + dx * 0.5 * marker_size / hypot)]),
                                   (''fill'', PStr color),
                                   (''opacity'', opacity_attr opacity),
                                   (''class'', PStr ''arrow'')])
                               None []])))))))))"

section \<open>BoardRenderer\<close>

record options =
  o_orientation :: bool
  o_flipped :: bool
  o_check :: "string option"
  o_lastmove :: "(string \<times> string) option"
  o_arrows :: "arrow list"
  o_squares :: "string list option"
  o_width :: pyval
  o_height :: pyval
  o_colors :: "(string \<times> string) list option"
  o_coordinates :: pyval
  o_borders :: bool
  o_background_image :: "string option"

text \<open>The two constant fragments, as \<^verbatim>\<open>ET.fromstring\<close> parses them.\<close>

definition XX :: elem where
  "XX = Elem ''g'' [(''id'', [S ''xx''])] None
     [Elem ''path''
        [(''d'', [S ''M35.865 9.135a1.89 1.89 0 0 1 0 2.673L25.173 22.5l10.692 10.692a1.89 1.89 0 0 1 0 2.673 1.89 1.89 0 0 1-2.673 0L22.5 25.173 11.808 35.865a1.89 1.89 0 0 1-2.673 0 1.89 1.89 0 0 1 0-2.673L19.827 22.5 9.135 11.808a1.89 1.89 0 0 1 0-2.673 1.89 1.89 0 0 1 2.673 0L22.5 19.827 33.192 9.135a1.89 1.89 0 0 1 2.673 0z'']),
         (''fill'', [S ''#000'']),
         (''stroke'', [S ''#fff'']),
         (''stroke-width'', [S ''1.688''])]
        None []]"

definition CHECK_GRADIENT :: elem where
  "CHECK_GRADIENT = Elem ''radialGradient'' [(''id'', [S ''check_gradient'']), (''r'', [S ''0.5''])] None
     [Elem ''stop''
        [(''offset'', [S ''0%'']), (''stop-color'', [S ''#ff0000'']), (''stop-opacity'', [S ''1.0''])]
        None [],
      Elem ''stop''
        [(''offset'', [S ''50%'']), (''stop-color'', [S ''#e70000'']), (''stop-opacity'', [S ''1.0''])]
        None [],
      Elem ''stop''
        [(''offset'', [S ''100%'']), (''stop-color'', [S ''#9e0000'']), (''stop-opacity'', [S ''0.0''])]
        None []]"

definition x_colors_to_css :: "(string \<times> string) list \<Rightarrow> string" where
  "x_colors_to_css colors =
     py_join [CHR 0x0A]
       (map (\<lambda>(selector, v).
               (''.'' @ py_join ''.'' (py_split selector)) @ '' { fill: '' @ v @ ''; }'')
          colors)"

text \<open>Truth of an optional string: neither \<^verbatim>\<open>None\<close> nor empty.\<close>

fun some_text :: "string option \<Rightarrow> bool" where
  "some_text None = False"
| "some_text (Some s) = (s \<noteq> [])"

fun of_attr :: "string option \<Rightarrow> pyval" where
  "of_attr None = PNone"
| "of_attr (Some s) = PStr s"

text \<open>\<^verbatim>\<open>os.path.splitext(p)[1]\<close>.\<close>

definition splitext_ext :: "string \<Rightarrow> string" where
  "splitext_ext p =
     (let base = rev (takeWhile (\<lambda>c. c \<noteq> CHR ''/'') (rev p));
          stem = dropWhile (\<lambda>c. c = CHR ''.'') base
      in if CHR ''.'' \<in> set stem
         then CHR ''.'' # rev (takeWhile (\<lambda>c. c \<noteq> CHR ''.'') (rev stem))
         else [])"

subsection \<open>The background\<close>

text \<open>
  \<^verbatim>\<open>float(parts[i])\<close> inside the \<^verbatim>\<open>try\<close> of the vector branch, where the handler
  prints the exception: the exception comes with the operand it was raised on.
\<close>

definition viewbox_number :: "env \<Rightarrow> string list \<Rightarrow> nat \<Rightarrow> (exn \<times> string) + real" where
  "viewbox_number E parts i =
     (if i < length parts
      then (case float_of E (parts ! i) of
              None \<Rightarrow> Inl (ValueError, parts ! i)
            | Some r \<Rightarrow> Inr r)
      else Inl (IndexError, []))"

text \<open>
  The intrinsic size of a vector background: from \<^verbatim>\<open>width\<close> and \<^verbatim>\<open>height\<close> (a
  failed conversion falls back to the board's size), else from the \<^verbatim>\<open>viewBox\<close> (a
  failed conversion raises), else the board's size.
\<close>

definition bg_intrinsic_size ::
  "env \<Rightarrow> board_t \<Rightarrow> string option \<Rightarrow> string option \<Rightarrow> string option
   \<Rightarrow> (exn \<times> string) + (real \<times> real)" where
  "bg_intrinsic_size E b width height viewBox =
     (let own = (real_of_int (b_cols b * SQUARE_SIZE), real_of_int (b_rows b * SQUARE_SIZE))
      in if some_text width \<and> some_text height then
           (case float_of E (py_remove ''px'' (case width of Some w \<Rightarrow> w | None \<Rightarrow> [])) of
              None \<Rightarrow> Inr own
            | Some width_val \<Rightarrow>
                (case float_of E (py_remove ''px'' (case height of Some h \<Rightarrow> h | None \<Rightarrow> [])) of
                   None \<Rightarrow> Inr own
                 | Some height_val \<Rightarrow> Inr (width_val, height_val)))
         else if some_text viewBox then
           (let parts = py_split (py_strip (case viewBox of Some v \<Rightarrow> v | None \<Rightarrow> []))
            in case viewbox_number E parts 2 of
                 Inl x \<Rightarrow> Inl x
               | Inr width_val \<Rightarrow>
                   (case viewbox_number E parts 3 of
                      Inl x \<Rightarrow> Inl x
                    | Inr height_val \<Rightarrow> Inr (width_val, height_val)))
         else Inr own)"

text \<open>
  The state of the render call around the background step: the document, the variables
  \<^verbatim>\<open>width\<close> and \<^verbatim>\<open>height\<close> (which the vector branch assigns), what was printed, and
  the flag \<^verbatim>\<open>render_squares\<close>.
\<close>

record bg_result =
  bg_svg :: elem
  bg_width :: pyval
  bg_height :: pyval
  bg_printed :: "xtext list"
  render_squares :: bool

definition BOARD_IMAGES :: string where
  "BOARD_IMAGES = ''pychess-variants/static/images/board''"

text \<open>The text of the background file without its XML declaration.\<close>

definition xml_body :: "string \<Rightarrow> string" where
  "xml_body content =
     (if py_startswith content ''<?xml'' then py_after_first content ''?>'' else content)"

text \<open>
  The vector branch; every exception inside its \<^verbatim>\<open>try\<close> ends in the handler, which
  prints it.
\<close>

definition vector_background ::
  "env \<Rightarrow> board_t \<Rightarrow> int \<Rightarrow> string \<Rightarrow> elem \<Rightarrow> pyval \<Rightarrow> pyval
   \<Rightarrow> elem \<times> pyval \<times> pyval \<times> xtext list" where
  "vector_background E b margin background_image svg width height =
     (let bg_path = path_join BOARD_IMAGES [background_image];
          msg = (\<lambda>e operand. [[S ''ERROR: Could not embed SVG background: '', X e operand]])
      in case open_text E bg_path of
           None \<Rightarrow> (svg, width, height, msg OSError bg_path)
         | Some content \<Rightarrow>
        (let bg_svg = xml_body content
         in case fromstring E bg_svg of
              None \<Rightarrow> (svg, width, height, msg ParseError bg_svg)
            | Some bg_tree \<Rightarrow>
                if py_endswith (src_tag bg_tree) ''svg'' then
                  (let width1 = map_of (src_attrib bg_tree) ''width'';
                       height1 = map_of (src_attrib bg_tree) ''height'';
                       viewBox = map_of (src_attrib bg_tree) ''viewBox''
                   in case bg_intrinsic_size E b width1 height1 viewBox of
                        Inl (e, operand) \<Rightarrow> (svg, of_attr width1, of_attr height1, msg e operand)
                      | Inr (width_val, height_val) \<Rightarrow>
                          if width_val = 0 \<or> height_val = 0
                          then (svg, of_attr width1, of_attr height1, msg ZeroDivisionError [])
                          else
                            (let scale_x = real_of_int (b_cols b * SQUARE_SIZE) / width_val;
                                 scale_y = real_of_int (b_rows b * SQUARE_SIZE) / height_val;
                                 bg_group =
                                   Elem ''g''
                                     [(''transform'',
                                       [S (''translate('' @ str_int margin @ '', ''
                                           @ str_int margin @ '') scale(''),
                                        F scale_x, S '', '', F scale_y, S '')''])]
                                     None (map lift (src_children bg_tree))
                             in (insert_child svg 1 bg_group,
                                 of_attr width1, of_attr height1, [])))
                else
                  (case fromstring E (''<g>'' @ bg_svg @ ''</g>'') of
                     None \<Rightarrow> (svg, width, height, msg ParseError (''<g>'' @ bg_svg @ ''</g>''))
                   | Some bg_elem \<Rightarrow> (insert_child svg 1 (lift bg_elem), width, height, []))))"

definition raster_background ::
  "env \<Rightarrow> board_t \<Rightarrow> int \<Rightarrow> string \<Rightarrow> elem \<Rightarrow> elem \<times> xtext list" where
  "raster_background E b margin background_image svg =
     (let img_path = path_join BOARD_IMAGES [background_image]
      in case open_bytes E img_path of
           None \<Rightarrow>
             (svg, [[S ''ERROR: Could not embed PNG/JPG background: '', X OSError img_path]])
         | Some img_bytes \<Rightarrow>
             (let ext = py_lower (splitext_ext background_image);
                  mime = (if ext = ''.jpg'' \<or> ext = ''.jpeg'' then ''image/jpeg''
                          else if ext = ''.png'' then ''image/png''
                          else ''application/octet-stream'');
                  data_uri = ''data:'' @ mime @ '';base64,'' @ b64encode E img_bytes
              in (append_child svg
                    (Elem ''image''
                       [(''{http://www.w3.org/1999/xlink}href'', [S data_uri]),
                        (''x'', [S (str_int margin)]),
                        (''y'', [S (str_int margin)]),
                        (''width'', [S (str_int (b_cols b * SQUARE_SIZE))]),
                        (''height'', [S (str_int (b_rows b * SQUARE_SIZE))]),
                        (''preserveAspectRatio'', [S ''none''])]
                       None []),
                  [])))"

definition background_step ::
  "env \<Rightarrow> board_t \<Rightarrow> int \<Rightarrow> string option \<Rightarrow> elem \<Rightarrow> pyval \<Rightarrow> pyval \<Rightarrow> bg_result" where
  "background_step E b margin background_image svg width height =
     (if some_text background_image then
        (let name = (case background_image of Some n \<Rightarrow> n | None \<Rightarrow> [])
         in if py_endswith (py_lower name) ''.svg'' then
              (case vector_background E b margin name svg width height of
                 (svg1, width1, height1, out) \<Rightarrow>
                   \<lparr>bg_svg = svg1, bg_width = width1, bg_height = height1,
                    bg_printed = out, render_squares = False\<rparr>)
            else
              (case raster_background E b margin name svg of
                 (svg1, out) \<Rightarrow>
                   \<lparr>bg_svg = svg1, bg_width = width, bg_height = height,
                    bg_printed = out, render_squares = False\<rparr>))
      else
        \<lparr>bg_svg = svg, bg_width = width, bg_height = height,
         bg_printed = [], render_squares = True\<rparr>)"

subsection \<open>The grid, the labels and the pieces\<close>

text \<open>The block that grows the \<^verbatim>\<open>viewBox\<close> by the margin when coordinates are drawn.\<close>

definition adjust_viewbox :: "board_t \<Rightarrow> int \<Rightarrow> pyval \<Rightarrow> pyval \<Rightarrow> pyval \<Rightarrow> elem \<Rightarrow> elem" where
  "adjust_viewbox b margin coordinates width height svg =
     (if truthy coordinates then
        (let total_width = b_cols b * SQUARE_SIZE + 2 * margin;
             total_height = b_rows b * SQUARE_SIZE + 2 * margin;
             svg1 = set_attr svg ''viewBox''
                      [S (''0 0 '' @ str_int total_width @ '' '' @ str_int total_height)];
             svg2 = (if width \<noteq> PNone
                     then set_attr svg1 ''width'' [S (str_int total_width)] else svg1);
             svg3 = (if height \<noteq> PNone
                     then set_attr svg2 ''height'' [S (str_int total_height)] else svg2)
         in svg3)
      else svg)"

definition square_elems ::
  "board_t \<Rightarrow> bool \<Rightarrow> int \<Rightarrow> pyval \<Rightarrow> ((int \<times> int) \<times> (int \<times> int)) option
   \<Rightarrow> string list option \<Rightarrow> int \<times> int \<Rightarrow> exn + elem list" where
  "square_elems b orientation margin coordinates lastmove squares yx =
     (case yx of (y_index, x_index) \<Rightarrow>
      case display_cell b orientation yx of (display_row, display_col) \<Rightarrow>
      (let x = x_index * SQUARE_SIZE + (if truthy coordinates then margin else 0);
           y = y_index * SQUARE_SIZE + (if truthy coordinates then margin else 0);
           cls = [''square'',
                  if display_col mod 2 = display_row mod 2 then ''light'' else ''dark'']
                 @ (case lastmove of
                      None \<Rightarrow> []
                    | Some (lastmove_from, lastmove_to) \<Rightarrow>
                        if (display_row, display_col) = lastmove_from
                           \<or> (display_row, display_col) = lastmove_to
                        then [''lastmove''] else [])
       in case map_of DEFAULT_COLORS (py_join '' '' cls) of
            None \<Rightarrow> Inl KeyError
          | Some fill_color \<Rightarrow>
              (let rect = Elem ''rect''
                            [(''x'', [S (str_int x)]),
                             (''y'', [S (str_int y)]),
                             (''width'', [S (str_int SQUARE_SIZE)]),
                             (''height'', [S (str_int SQUARE_SIZE)]),
                             (''class'', [S (py_join '' '' cls)]),
                             (''stroke'', [S ''none'']),
                             (''fill'', [S fill_color])]
                            None [];
                   mark = Elem ''use''
                            (x_attrs
                               [(''href'', PStr ''#xx''),
                                (''xlink:href'', PStr ''#xx''),
                                (''x'', PInt x),
                                (''y'', PInt y)])
                            None []
               in case squares of
                    None \<Rightarrow> Inr [rect]
                  | Some sqs \<Rightarrow>
                      if sqs = [] then Inr [rect]
                      else bnd (parse_squares (b_rows b) sqs) (\<lambda>cells.
                             Inr (if (display_row, display_col) \<in> set cells
                                  then [rect, mark] else [rect])))))"

text \<open>\<^verbatim>\<open>int(x)\<close> of a float: truncation towards zero.\<close>

definition py_trunc :: "real \<Rightarrow> int" where
  "py_trunc r = (if 0 \<le> r then \<lfloor>r\<rfloor> else \<lceil>r\<rceil>)"

definition label_elem :: "int \<Rightarrow> int \<Rightarrow> int \<Rightarrow> string \<Rightarrow> string \<Rightarrow> elem" where
  "label_elem x y font_size text_color label =
     Elem ''text''
       [(''x'', [S (str_int x)]),
        (''y'', [S (str_int y)]),
        (''text-anchor'', [S ''middle'']),
        (''dominant-baseline'', [S ''middle'']),
        (''font-size'', [S (str_int font_size)]),
        (''font-family'', [S ''Arial, sans-serif'']),
        (''fill'', [S text_color]),
        (''opacity'', [S ''1.0''])]
       (Some label) []"

definition coordinate_elems ::
  "env \<Rightarrow> board_t \<Rightarrow> bool \<Rightarrow> int \<Rightarrow> pyval \<Rightarrow> exn + elem list" where
  "coordinate_elems E b orientation margin coordinates =
     (if truthy coordinates then
        (let font_size = py_trunc (real_of_int margin * 0.9);
             offset = py_trunc (real_of_int font_size * 0.65)
         in case map_of DEFAULT_COLORS ''coord'' of
              None \<Rightarrow> Inl KeyError
            | Some text_color \<Rightarrow>
          bnd (collect
                 (\<lambda>file_index.
                    (let index = (if orientation then file_index
                                  else b_cols b - file_index - 1)
                     in case COORDS E coordinates of
                          None \<Rightarrow> Inl KeyError
                        | Some (file_label, rank_label) \<Rightarrow>
                            (let file_char = file_label index (b_cols b);
                                 x = file_index * SQUARE_SIZE + margin + SQUARE_SIZE div 2;
                                 y_top = offset;
                                 y_bottom = margin + b_rows b * SQUARE_SIZE + offset
                             in Inr [label_elem x y_top font_size text_color file_char,
                                     label_elem x y_bottom font_size text_color file_char])))
                 [0..b_cols b - 1]) (\<lambda>files.
          bnd (collect
                 (\<lambda>rank_index.
                    (let index = (if orientation then rank_index
                                  else b_rows b - rank_index - 1)
                     in case COORDS E coordinates of
                          None \<Rightarrow> Inl KeyError
                        | Some (file_label, rank_label) \<Rightarrow>
                            (let rank_char = rank_label index (b_rows b);
                                 y = rank_index * SQUARE_SIZE + margin + SQUARE_SIZE div 2;
                                 x_left = offset;
                                 x_right = margin + b_cols b * SQUARE_SIZE + offset
                             in Inr [label_elem x_left y font_size text_color rank_char,
                                     label_elem x_right y font_size text_color rank_char])))
                 [0..b_rows b - 1]) (\<lambda>ranks. Inr (files @ ranks))))
      else Inr [])"

definition piece_elems ::
  "env \<Rightarrow> board_t \<Rightarrow> bool \<Rightarrow> int \<Rightarrow> pyval \<Rightarrow> (int \<times> int) option \<Rightarrow> int \<times> int \<Rightarrow> elem list" where
  "piece_elems E b orientation margin coordinates check_index yx =
     (case yx of (y_index, x_index) \<Rightarrow>
      case display_cell b orientation yx of (display_row, display_col) \<Rightarrow>
      (let x = x_index * SQUARE_SIZE + (if truthy coordinates then margin else 0);
           y = y_index * SQUARE_SIZE + (if truthy coordinates then margin else 0)
       in case b_piece_at b display_row display_col of
            None \<Rightarrow> []
          | Some pc \<Rightarrow>
              (case check_index of
                 None \<Rightarrow> []
               | Some (check_rank_index, check_file_index) \<Rightarrow>
                   if check_file_index = display_col \<and> check_rank_index = display_row
                   then [Elem ''rect''
                           (x_attrs
                              [(''x'', PInt x),
                               (''y'', PInt y),
                               (''width'', PInt SQUARE_SIZE),
                               (''height'', PInt SQUARE_SIZE),
                               (''class'', PStr ''check''),
                               (''fill'', PStr ''url(#check_gradient)'')])
                           None []]
                   else [])
              @ [Elem ''use''
                   [(''xlink:href'',
                     [S (''#'' @ COLOR_NAMES E (p_color pc) @ ''-'' @ p_symbol pc @ ''-piece'')]),
                    (''transform'',
                     [S (''translate('' @ str_int x @ '', '' @ str_int y @ '')'')])]
                   None []]))"

subsection \<open>The render call\<close>

text \<open>The definitions block: one parsed fragment per cached symbol, in dictionary order.\<close>

fun parse_fragments :: "env \<Rightarrow> (string \<times> string) list \<Rightarrow> exn + elem list" where
  "parse_fragments E [] = Inr []"
| "parse_fragments E ((symbol, frag) # rest) =
     (case fromstring E frag of
        None \<Rightarrow> Inl ParseError
      | Some e \<Rightarrow> bnd (parse_fragments E rest) (\<lambda>es. Inr (lift e # es)))"

text \<open>
  Everything before the background step: the root, the style block, the last-move
  cells, the definitions block and the check cell.
\<close>

definition board_head ::
  "env \<Rightarrow> registry \<Rightarrow> string \<Rightarrow> board_t \<Rightarrow> options
   \<Rightarrow> exn + (elem \<times> ((int \<times> int) \<times> (int \<times> int)) option \<times> (int \<times> int) option)" where
  "board_head E st css b opts =
     (let svg0 = x_svg (b_cols b * SQUARE_SIZE) (b_rows b * SQUARE_SIZE)
                   (o_width opts) (o_height opts);
          svg1 = (case o_colors opts of
                    None \<Rightarrow> svg0
                  | Some cs \<Rightarrow>
                      if cs = [] then svg0
                      else append_child svg0
                             (Elem ''style'' [] (Some (x_colors_to_css cs)) []))
      in bnd (case o_lastmove opts of
                None \<Rightarrow> Inr None
              | Some (from_square, to_square) \<Rightarrow>
                  bnd (cell_of (b_rows b) from_square) (\<lambda>lastmove_from.
                  bnd (cell_of (b_rows b) to_square) (\<lambda>lastmove_to.
                    Inr (Some (lastmove_from, lastmove_to))))) (\<lambda>lastmove.
         bnd (if b_truthy b then
                (case SVG_PIECES st css of
                   None \<Rightarrow> Inl KeyError
                 | Some frags \<Rightarrow> parse_fragments E frags)
              else Inr []) (\<lambda>defs0.
         (let defs1 = defs0 @ (case o_squares opts of
                                 None \<Rightarrow> []
                               | Some sqs \<Rightarrow> if sqs = [] then [] else [XX])
          in bnd (case o_check opts of
                    None \<Rightarrow> Inr (defs1, None)
                  | Some sq \<Rightarrow>
                      bnd (square_rank sq) (\<lambda>r.
                      bnd (square_file sq) (\<lambda>f.
                        Inr (defs1 @ [CHECK_GRADIENT], Some (b_rows b - r - 1, f))))) (\<lambda>(defs2, check_index).
             Inr (append_child svg1 (Elem ''defs'' [] None defs2), lastmove, check_index))))))"

text \<open>
  The render call. Without a board (\<^verbatim>\<open>board=None\<close>) the first use of
  \<^verbatim>\<open>board.cols\<close> raises. The result is the document, or the exception that ended the
  call, with what the call printed.
\<close>

definition board ::
  "env \<Rightarrow> registry \<Rightarrow> string \<Rightarrow> board_t option \<Rightarrow> options \<Rightarrow> (exn + elem) \<times> xtext list" where
  "board E st css brd opts =
     (case brd of
        None \<Rightarrow> (Inl AttributeError, [])
      | Some b \<Rightarrow>
     (let orientation = (o_orientation opts \<noteq> o_flipped opts);
          coordinates = o_coordinates opts;
          inner_border = (if o_borders opts \<and> truthy coordinates then 1 else 0);
          outer_border = (if o_borders opts then 1 else 0);
          margin = (if truthy coordinates then 15 else 0)
      in case board_head E st css b opts of
           Inl e \<Rightarrow> (Inl e, [])
         | Inr (svg, lastmove, check_index) \<Rightarrow>
     (let bg = background_step E b margin (o_background_image opts) svg
                 (o_width opts) (o_height opts);
          svg1 = adjust_viewbox b margin coordinates (bg_width bg) (bg_height bg) (bg_svg bg)
      in (bnd (if render_squares bg
               then collect (square_elems b orientation margin coordinates lastmove
                               (o_squares opts)) (grid b)
               else Inr []) (\<lambda>squares.
          bnd (coordinate_elems E b orientation margin coordinates) (\<lambda>labels.
          bnd (collect (arrow_elems b orientation outer_border margin coordinates
                          inner_border (o_colors opts)) (o_arrows opts)) (\<lambda>arrows.
            Inr (append_children svg1
                   (squares @ labels
                    @ concat (map (piece_elems E b orientation margin coordinates
                                     check_index) (grid b))
                    @ arrows))))),
          bg_printed bg))))"

section \<open>Measuring a document, and concrete scenarios\<close>


definition has_attr :: "elem \<Rightarrow> string \<Rightarrow> bool" where
  "has_attr e k = (map_of (attrib e) k \<noteq> None)"

text \<open>The inputs at which the theorems below are instantiated.\<close>

definition no_labels :: "pyval \<Rightarrow> ((int \<Rightarrow> int \<Rightarrow> string) \<times> (int \<Rightarrow> int \<Rightarrow> string)) option" where
  "no_labels k = None"

definition plain_labels :: "pyval \<Rightarrow> ((int \<Rightarrow> int \<Rightarrow> string) \<times> (int \<Rightarrow> int \<Rightarrow> string)) option" where
  "plain_labels k = Some (\<lambda>i n. str_int i, \<lambda>i n. str_int (n - i))"

definition colour_names :: "bool \<Rightarrow> string" where
  "colour_names c = (if c then ''white'' else ''black'')"

text \<open>A file system without any file, and libraries that fail.\<close>

definition env_none :: env where
  "env_none =
     \<lparr>isfile = (\<lambda>p. False), open_lines = (\<lambda>p. None), open_text = (\<lambda>p. None),
      open_bytes = (\<lambda>p. None), normpath = (\<lambda>p. p), fromstring = (\<lambda>s. None),
      float_of = (\<lambda>s. None), b64encode = (\<lambda>s. s),
      transform_viewBox = (\<lambda>p. Inl OSError), compose_SVG = (\<lambda>p. Inl OSError),
      COLOR_NAMES = colour_names, COORDS = no_labels\<rparr>"

text \<open>
  A theme \<^verbatim>\<open>t\<close> with a stylesheet of two rules and one asset, \<^verbatim>\<open>wK.svg\<close>, that
  declares a \<^verbatim>\<open>viewBox\<close>.
\<close>

definition theme_css :: "string list" where
  "theme_css =
     [''.t piece.k-piece.white {'' @ [CHR 0x0A],
      ''  background-image: url('wK.svg');'' @ [CHR 0x0A],
      ''}'' @ [CHR 0x0A],
      [CHR 0x0A],
      ''.t piece.r-piece.black.promoted { background-image: url('bR.png'); }'' @ [CHR 0x0A]]"

definition theme_css_path :: string where
  "theme_css_path = ''pychess-variants/static/piece/t.css''"

definition king_asset_path :: string where
  "king_asset_path = ''pychess-variants/static/piece/t/../wK.svg''"

definition king_figure :: figure where
  "king_figure = \<lparr>fig_width = None, fig_markup = (\<lambda>sc. ''<svg/>'')\<rparr>"

definition env_theme :: env where
  "env_theme =
     \<lparr>isfile = (\<lambda>p. p = theme_css_path \<or> p = king_asset_path),
      open_lines = (\<lambda>p. if p = theme_css_path then Some theme_css else None),
      open_text = (\<lambda>p. None), open_bytes = (\<lambda>p. None), normpath = (\<lambda>p. p),
      fromstring = (\<lambda>s. None),
      float_of = (\<lambda>s. if s = ''45'' then Some 45 else None), b64encode = (\<lambda>s. s),
      transform_viewBox = (\<lambda>p. Inr (Some ''0 0 45 45'')),
      compose_SVG = (\<lambda>p. Inr king_figure),
      COLOR_NAMES = colour_names, COORDS = no_labels\<rparr>"

text \<open>The same theme with an asset that declares neither a size nor a \<^verbatim>\<open>viewBox\<close>.\<close>

definition env_sizeless :: env where
  "env_sizeless = env_theme\<lparr>transform_viewBox := (\<lambda>p. Inr None)\<rparr>"

text \<open>
  The same theme with a loader that raises \<^verbatim>\<open>AttributeError\<close> on the asset, as the
  handler in \<^verbatim>\<open>read_piece_svg\<close> expects of an asset without \<^verbatim>\<open>width/height\<close>.
\<close>

definition env_loader_fails :: env where
  "env_loader_fails =
     env_theme\<lparr>transform_viewBox := (\<lambda>p. Inr None), compose_SVG := (\<lambda>p. Inl AttributeError)\<rparr>"

definition reg_empty :: registry where
  "reg_empty = \<lparr>SVG_PIECES = Map.empty, SVG_PATH_PIECES = Map.empty, printed = [], io_trace = []\<rparr>"

text \<open>The registry after the theme \<^verbatim>\<open>t\<close> was populated.\<close>

definition reg_theme :: registry where
  "reg_theme = snd (get_svg_pieces_from_css env_theme reg_empty ''t'')"

definition white_king :: piece_t where
  "white_king = \<lparr>p_symbol = ''K'', p_color = True\<rparr>"

text \<open>The registry after the king's fragment was cached.\<close>

definition reg_king :: registry where
  "reg_king = snd (read_piece_svg env_theme reg_theme ''t'' white_king)"

definition empty_board :: "int \<Rightarrow> int \<Rightarrow> board_t" where
  "empty_board r c = \<lparr>b_rows = r, b_cols = c, b_piece_at = (\<lambda>y x. None), b_truthy = True\<rparr>"

definition plain_options :: options where
  "plain_options =
     \<lparr>o_orientation = True, o_flipped = False, o_check = None, o_lastmove = None,
      o_arrows = [], o_squares = None, o_width = PNone, o_height = PNone, o_colors = None,
      o_coordinates = PNone, o_borders = False, o_background_image = None\<rparr>"

text \<open>
  A vector background \<^verbatim>\<open>bg.svg\<close> whose root declares \<^verbatim>\<open>width\<close> and \<^verbatim>\<open>height\<close>,
  and coordinate labels.
\<close>

definition bg_source :: string where
  "bg_source = ''<svg width='10' height='10'></svg>''"

definition env_background :: env where
  "env_background =
     env_none
       \<lparr>open_text := (\<lambda>p. if p = ''pychess-variants/static/images/board/bg.svg''
                           then Some bg_source else None),
        fromstring := (\<lambda>s. if s = bg_source
                            then Some (SrcElem ''svg'' [(''width'', ''10''), (''height'', ''10'')]
                                         None [])
                            else None),
        float_of := (\<lambda>s. if s = ''10'' then Some 10 else None),
        COORDS := plain_labels\<rparr>"






definition reg_t :: registry where
  "reg_t = \<lparr>SVG_PIECES = [''t'' \<mapsto> []], SVG_PATH_PIECES = [''t'' \<mapsto> []], printed = [], io_trace = []\<rparr>"

section \<open>Evaluation rules\<close>

lemmas str_eval =
  py_startswith_def py_endswith_def py_find_def py_in_def py_slice_def clip_index_def
  py_strip_def is_space_def upper_char_def lower_char_def py_lower_def py_split_def
  char_of_def bit_Suc_0_iff

lemmas int_eval = py_int_def c_strip_def is_c_space_def skip_prefix_def digit_val_def

lemma square_a1: "square_file ''a1'' = Inr 0" "square_rank ''a1'' = Inr 0"
  by (simp_all add: square_file_def square_rank_def int_eval str_eval)

lemma square_b2: "square_file ''b2'' = Inr 1" "square_rank ''b2'' = Inr 1"
  by (simp_all add: square_file_def square_rank_def int_eval str_eval)

lemma green_resolved: "resolve_arrow_color (Some []) ''green'' = Inr (''#15781B'', 128 / 255)"
  by (simp add: resolve_arrow_color_def x_select_color_def DEFAULT_COLORS_def x_color_def
      int_eval str_eval)

text \<open>
  The integer parser does not take the separators 0x1C to 0x1F for whitespace, while
  \<^verbatim>\<open>str.split\<close> does.
\<close>

lemma py_int_separator:
  "py_int 16 [CHR 0x1F, CHR ''f''] = None"
  "py_int 10 [CHR 0x1F, CHR ''1''] = None"
  "py_int 10 [CHR 0x20, CHR ''1''] = Some 1"
  "py_split [CHR ''a'', CHR 0x1F, CHR ''b''] = [''a'', ''b'']"
  by (simp_all add: int_eval str_eval)

section \<open>ColorResolver: hex with alpha\<close>

lemma x_color_abcd: "x_color ''#abcd'' = (''#abc'', 13 / 15)"
  by (simp add: x_color_def int_eval str_eval)

lemma x_color_aabbccdd: "x_color ''#aabbccdd'' = (''#aabbcc'', 221 / 255)"
  by (simp add: x_color_def int_eval str_eval)

lemma x_color_notahex: "x_color ''notahex'' = (''notahex'', 1)"
  by (simp add: x_color_def int_eval str_eval)

lemma x_color_other_shape:
  "\<not> py_startswith c ''#'' \<or> (length c \<noteq> 5 \<and> length c \<noteq> 9) \<Longrightarrow> x_color c = (c, 1)"
  by (auto simp add: x_color_def)

lemma x_color_rejected_digits:
  "length c = 5 \<Longrightarrow> py_int 16 [c ! 4] = None \<Longrightarrow> x_color c = (c, 1)"
  "length c = 9 \<Longrightarrow> py_int 16 (drop 7 c) = None \<Longrightarrow> x_color c = (c, 1)"
  by (simp_all add: x_color_def)

text \<open>
  C4. The two decodings of the claim hold (\<open>x_color_abcd\<close>, \<open>x_color_aabbccdd\<close>), and so
  does the fallback for \<^verbatim>\<open>"notahex"\<close>, for every literal of another shape and for
  every trailing text the integer parser rejects. The parser, however, accepts more than
  hex digits: the literal \<^verbatim>\<open>"#aabbcc-1"\<close> has nine characters and the trailing text
  \<^verbatim>\<open>-1\<close>, which \<^verbatim>\<open>int(_, 16)\<close> reads as minus one. The literal is then not returned
  whole with opacity 1.0: it is cut to \<^verbatim>\<open>"#aabbcc"\<close> and given the negative opacity
  -1/255.
\<close>

theorem x_color_signed_alpha: "x_color ''#aabbcc-1'' = (''#aabbcc'', - 1 / 255)"
  by (simp add: x_color_def int_eval str_eval)

section \<open>CoordinateMapper: the mirror symmetry of the anchors\<close>

text \<open>
  C6. The pixel anchor of a square under \<^verbatim>\<open>orientation=True\<close> is the pixel anchor of
  the mirrored square \<open>(cols - 1 - file, rows - 1 - rank)\<close> under
  \<^verbatim>\<open>orientation=False\<close>, for the same margin and border settings. The identity needs no
  bound on the file and the rank.
\<close>

theorem anchor_mirror_symmetry:
  "anchor_x ob m co ib True cols file = anchor_x ob m co ib False cols (cols - 1 - file)
   \<and> anchor_y ob m co ib True rows rank = anchor_y ob m co ib False rows (rows - 1 - rank)"
  by (simp add: anchor_x_def anchor_y_def algebra_simps)

section \<open>ArrowRenderer\<close>

lemma anchor_x_diff:
  "anchor_x ob m co ib ori cols hf - anchor_x ob m co ib ori cols tf
     = (if ori then 45 else - 45) * (real_of_int hf - real_of_int tf)"
  by (simp add: anchor_x_def SQUARE_SIZE_def algebra_simps)

lemma anchor_y_diff:
  "anchor_y ob m co ib ori rows hr - anchor_y ob m co ib ori rows tr
     = (if ori then - 45 else 45) * (real_of_int hr - real_of_int tr)"
  by (simp add: anchor_y_def SQUARE_SIZE_def algebra_simps)

text \<open>Two distinct squares have distinct anchors, so the length of the shaft is not zero.\<close>

lemma hypot_nonzero:
  assumes "(hf, hr) \<noteq> (tf, tr)"
  shows "sqrt ((anchor_x ob m co ib ori cols hf - anchor_x ob m co ib ori cols tf)
                 * (anchor_x ob m co ib ori cols hf - anchor_x ob m co ib ori cols tf)
               + (anchor_y ob m co ib ori rows hr - anchor_y ob m co ib ori rows tr)
                 * (anchor_y ob m co ib ori rows hr - anchor_y ob m co ib ori rows tr)) \<noteq> 0"
proof -
  let ?dx = "anchor_x ob m co ib ori cols hf - anchor_x ob m co ib ori cols tf"
  let ?dy = "anchor_y ob m co ib ori rows hr - anchor_y ob m co ib ori rows tr"
  from assms have "hf \<noteq> tf \<or> hr \<noteq> tr" by simp
  then have "?dx \<noteq> 0 \<or> ?dy \<noteq> 0"
    unfolding anchor_x_diff anchor_y_diff by auto
  then have "?dx * ?dx + ?dy * ?dy \<noteq> 0"
    by (simp add: sum_squares_eq_zero_iff)
  then show ?thesis by simp
qed

text \<open>
  What one arrow contributes, once its colour is resolved and its squares are read: the
  tags, the opacity attribute and the colour attribute of every element.
\<close>

lemma arrow_elems_shape:
  assumes "arrow_parts arr = (tail, head, c)"
      and "resolve_arrow_color colors c = Inr (col, opacity)"
      and "square_file tail = Inr tf" and "square_rank tail = Inr tr"
      and "square_file head = Inr hf" and "square_rank head = Inr hr"
  shows "\<exists>es. arrow_elems b ori ob m co ib colors arr = Inr es
           \<and> map tag es = (if (hf, hr) = (tf, tr) then [''circle''] else [''line'', ''polygon''])
           \<and> (\<forall>e \<in> set es. map_of (attrib e) ''opacity''
                  = (if opacity < 1 then Some [F opacity] else None))"
proof (cases "(hf, hr) = (tf, tr)")
  case True
  then show ?thesis using assms
    by (simp add: arrow_elems_def x_attrs_def opacity_attr_def)
next
  case False
  from hypot_nonzero[OF False] show ?thesis using assms False
    by (simp add: arrow_elems_def x_attrs_def opacity_attr_def Let_def)
qed



text \<open>
  C9. Every element an arrow contributes (circle, line or polygon) has no opacity
  attribute when the resolved opacity is exactly 1, and carries the opacity as its
  attribute when the resolved opacity is below 1.
\<close>

theorem arrow_opacity_attribute:
  assumes "arrow_parts arr = (tail, head, c)"
      and "resolve_arrow_color colors c = Inr (col, opacity)"
      and "arrow_elems b ori ob m co ib colors arr = Inr es"
      and "e \<in> set es"
  shows "(opacity = 1 \<longrightarrow> map_of (attrib e) ''opacity'' = None)
         \<and> (opacity < 1 \<longrightarrow> map_of (attrib e) ''opacity'' = Some [F opacity])"
proof -
  from assms(3) obtain tf tr hf hr where parsed:
    "square_file tail = Inr tf" "square_rank tail = Inr tr"
    "square_file head = Inr hf" "square_rank head = Inr hr"
    using assms(1,2)
    by (cases "square_file tail"; cases "square_rank tail"; cases "square_file head";
        cases "square_rank head") (simp_all add: arrow_elems_def)
  from arrow_elems_shape[OF assms(1,2) parsed, of b ori ob m co ib] assms(3,4)
  have "map_of (attrib e) ''opacity'' = (if opacity < 1 then Some [F opacity] else None)"
    by auto
  then show ?thesis by simp
qed

theorem arrow_opacity_attribute_witness:
  "(case arrow_elems (empty_board 8 8) True 0 0 PNone 0 (Some []) (Pair ''a1'' ''a1'') of
      Inr [e] \<Rightarrow> map_of (attrib e) ''opacity'' = Some [F (128 / 255)]
    | _ \<Rightarrow> False)
   \<and> (case arrow_elems (empty_board 8 8) True 0 0 PNone 0 (Some [])
             (Arrow ''a1'' ''a1'' ''purple'') of
      Inr [e] \<Rightarrow> map_of (attrib e) ''opacity'' = None
    | _ \<Rightarrow> False)"
proof -
  have purple: "resolve_arrow_color (Some []) ''purple'' = Inr (''purple'', 1)"
    by (simp add: resolve_arrow_color_def x_select_color_def DEFAULT_COLORS_def)
  obtain es where es:
    "arrow_elems (empty_board 8 8) True 0 0 PNone 0 (Some []) (Pair ''a1'' ''a1'') = Inr es"
    "map tag es = [''circle'']"
    using arrow_elems_shape[of "Pair ''a1'' ''a1''" "''a1''" "''a1''" "''green''" "Some []"
            "''#15781B''" "128 / 255" 0 0 0 0 "empty_board 8 8" True 0 0 PNone 0]
    by (auto simp add: square_a1 green_resolved)
  then obtain e where e: "es = [e]" by (cases es) auto
  obtain fs where fs:
    "arrow_elems (empty_board 8 8) True 0 0 PNone 0 (Some []) (Arrow ''a1'' ''a1'' ''purple'')
       = Inr fs"
    "map tag fs = [''circle'']"
    using arrow_elems_shape[of "Arrow ''a1'' ''a1'' ''purple''" "''a1''" "''a1''" "''purple''"
            "Some []" "''purple''" 1 0 0 0 0 "empty_board 8 8" True 0 0 PNone 0]
    by (auto simp add: square_a1 purple)
  then obtain f where f: "fs = [f]" by (cases fs) auto
  from arrow_opacity_attribute[OF _ green_resolved es(1), of "''a1''" "''a1''" e]
  have "map_of (attrib e) ''opacity'' = Some [F (128 / 255)]" by (simp add: e)
  moreover from arrow_opacity_attribute[OF _ purple fs(1), of "''a1''" "''a1''" f]
  have "map_of (attrib f) ''opacity'' = None" by (simp add: f)
  ultimately show ?thesis by (simp add: es(1) e fs(1) f)
qed

text \<open>
  C8. A colour slot that neither the caller's mapping nor the default palette has makes
  \<^verbatim>\<open>_select_color\<close> raise \<^verbatim>\<open>KeyError\<close>; the arrow loop catches it, keeps the colour
  word of the arrow with opacity 1, and renders the arrow (its squares being readable)
  without an opacity attribute.
\<close>

theorem unknown_slot_is_caught:
  assumes "map_of cs (''arrow '' @ c) = None"
      and "map_of DEFAULT_COLORS (''arrow '' @ c) = None"
      and "square_file tail = Inr tf" and "square_rank tail = Inr tr"
      and "square_file head = Inr hf" and "square_rank head = Inr hr"
  shows "x_select_color cs (''arrow '' @ c) = Inl KeyError
         \<and> resolve_arrow_color (Some cs) c = Inr (c, 1)
         \<and> (\<exists>es. arrow_elems b ori ob m co ib (Some cs) (Arrow tail head c) = Inr es
                \<and> es \<noteq> []
                \<and> (\<forall>e \<in> set es. map_of (attrib e) ''opacity'' = None))"
proof -
  have raised: "x_select_color cs (''arrow '' @ c) = Inl KeyError"
    using assms(2) by (simp add: x_select_color_def)
  then have caught: "resolve_arrow_color (Some cs) c = Inr (c, 1)"
    by (simp add: resolve_arrow_color_def)
  from arrow_elems_shape[OF _ caught assms(3-6), of "Arrow tail head c" b ori ob m co ib]
  obtain es where "arrow_elems b ori ob m co ib (Some cs) (Arrow tail head c) = Inr es"
    and "map tag es = (if (hf, hr) = (tf, tr) then [''circle''] else [''line'', ''polygon''])"
    and "\<forall>e \<in> set es. map_of (attrib e) ''opacity'' = None"
    by auto
  moreover from this(2) have "es \<noteq> []" by (auto split: if_splits)
  ultimately show ?thesis using raised caught by blast
qed

theorem unknown_slot_is_caught_witness:
  "x_select_color [] ''arrow purple'' = Inl KeyError
   \<and> resolve_arrow_color (Some []) ''purple'' = Inr (''purple'', 1)
   \<and> (\<exists>es. arrow_elems (empty_board 8 8) True 0 0 PNone 0 (Some [])
               (Arrow ''a1'' ''b2'' ''purple'') = Inr es
          \<and> es \<noteq> [] \<and> (\<forall>e \<in> set es. map_of (attrib e) ''opacity'' = None))"
  using unknown_slot_is_caught[of "[]" "''purple''" "''a1''" 0 0 "''b2''" 1 1
          "empty_board 8 8" True 0 0 PNone 0]
  by (simp add: square_a1 square_b2 DEFAULT_COLORS_def)

section \<open>The single-piece renderer\<close>

text \<open>
  C10. \<^verbatim>\<open>piece(css, piece, size)\<close> raises \<^verbatim>\<open>KeyError\<close> whenever the theme id was
  never populated or the theme's fragment cache has no entry for the piece's symbol.
\<close>

theorem piece_lookup_failure:
  assumes "SVG_PIECES st css = None
           \<or> (\<exists>frags. SVG_PIECES st css = Some frags \<and> map_of frags (p_symbol pc) = None)"
  shows "piece E st css pc sz = Inl KeyError"
  using assms by (auto simp add: piece_def)

theorem piece_lookup_failure_witness:
  "piece env_none reg_empty ''t'' white_king PNone = Inl KeyError
   \<and> piece env_none reg_t ''t'' white_king (PInt 90) = Inl KeyError"
  using piece_lookup_failure[of reg_empty "''t''" white_king env_none PNone]
        piece_lookup_failure[of reg_t "''t''" white_king env_none "PInt 90"]
  by (simp add: reg_empty_def reg_t_def)

section \<open>ThemeRegistry\<close>

lemma css_path_t: "css_path_of ''t'' = theme_css_path"
  by (simp add: css_path_of_def path_join_def join2_def STATIC_PATH_def theme_css_path_def
      str_eval)

text \<open>
  The scan of the example stylesheet: the rule of the white side gets its last letter in
  upper case, the promoted rule the prefix \<^verbatim>\<open>p\<close>.
\<close>

lemma scan_theme:
  "snd (foldl scan_line (([], [], [], False), []) theme_css)
     = [(''K'', ''wK.svg''), (''pr'', ''bR.png'')]"
  by (simp add: theme_css_def scan_line_def str_eval Let_def)

lemma reg_theme_eq:
  "reg_theme =
     \<lparr>SVG_PIECES = [''t'' \<mapsto> []],
      SVG_PATH_PIECES = [''t'' \<mapsto> [(''K'', ''wK.svg''), (''pr'', ''bR.png'')]],
      printed = [], io_trace = [IsFile theme_css_path, OpenRead theme_css_path]\<rparr>"
  by (simp add: reg_theme_def get_svg_pieces_from_css_def css_path_t scan_theme env_theme_def
      reg_empty_def)

lemma king_path: "path_join STATIC_PATH [''piece'', ''t'', ''..'', ''wK.svg''] = king_asset_path"
  by (simp add: path_join_def join2_def STATIC_PATH_def king_asset_path_def str_eval)

lemma king_suffix: "drop (length king_asset_path - 3) king_asset_path = ''svg''"
  by (simp add: king_asset_path_def)

lemma reg_king_eq:
  "reg_king =
     \<lparr>SVG_PIECES = [''t'' \<mapsto> [(''K'', ''<g id=\"white-K-piece\"><svg/></g>'')]],
      SVG_PATH_PIECES = [''t'' \<mapsto> [(''K'', ''wK.svg''), (''pr'', ''bR.png'')]],
      printed = [],
      io_trace = [IsFile theme_css_path, OpenRead theme_css_path, IsFile king_asset_path,
                  LoadSvg king_asset_path, LoadSvg king_asset_path]\<rparr>"
  by (simp add: reg_king_def read_piece_svg_def reg_theme_eq king_path king_suffix env_theme_def
      white_king_def part_float_def py_split_def is_space_def SQUARE_SIZE_def king_figure_def
      colour_names_def Let_def)

text \<open>
  C3, as the code has it. \<^verbatim>\<open>get_svg_pieces_from_css\<close> keeps no record of what it has
  populated: a second call for the same theme id (on the same file system) ends as the
  first did and leaves the same two dictionaries, but it gets there by resetting both
  entries, testing for the stylesheet again and, when it is there, opening and scanning
  it again.
\<close>

theorem populate_twice:
  "(let r1 = get_svg_pieces_from_css E st css;
        r2 = get_svg_pieces_from_css E (snd r1) css
    in fst r2 = fst r1
       \<and> SVG_PIECES (snd r2) = SVG_PIECES (snd r1)
       \<and> SVG_PATH_PIECES (snd r2) = SVG_PATH_PIECES (snd r1)
       \<and> io_trace (snd r2)
           = io_trace (snd r1)
             @ IsFile (css_path_of css)
               # (if isfile E (css_path_of css) then [OpenRead (css_path_of css)] else []))"
  by (cases "open_lines E (css_path_of css)") (simp_all add: get_svg_pieces_from_css_def Let_def)

text \<open>
  C3 as stated fails: the second call for the theme \<^verbatim>\<open>t\<close> tests for and opens the
  stylesheet again, and a call made after the king's fragment was cached empties the
  fragment cache of the theme.
\<close>

theorem populate_again_counterexample:
  "io_trace (snd (get_svg_pieces_from_css env_theme reg_theme ''t''))
     = [IsFile theme_css_path, OpenRead theme_css_path,
        IsFile theme_css_path, OpenRead theme_css_path]
   \<and> SVG_PIECES reg_king ''t'' = Some [(''K'', ''<g id=\"white-K-piece\"><svg/></g>'')]
   \<and> SVG_PIECES (snd (get_svg_pieces_from_css env_theme reg_king ''t'')) ''t'' = Some []"
  by (simp add: get_svg_pieces_from_css_def css_path_t scan_theme reg_theme_eq reg_king_eq
      env_theme_def)

text \<open>
  C2, as the code has it. For a symbol the stylesheet names: an asset file that is
  missing or does not end in \<^verbatim>\<open>svg\<close> is skipped without an exception and without a
  change of the fragment cache; an asset that declares neither a \<^verbatim>\<open>viewBox\<close> nor a
  width, and that the loader returns, gets the empty fragment, again without an
  exception; but an exception of the loader \<^verbatim>\<open>svgutils.compose.SVG\<close> leaves
  \<^verbatim>\<open>read_piece_svg\<close> (for \<^verbatim>\<open>AttributeError\<close> the handler prints and raises again).
\<close>

theorem read_piece_svg_failures:
  assumes "SVG_PATH_PIECES st css = Some paths"
      and "map_of paths (p_symbol pc) = Some piece_svg"
      and "orig = normpath E (path_join STATIC_PATH [''piece'', css, ''..'', piece_svg])"
  shows "(\<not> isfile E orig \<or> drop (length orig - 3) orig \<noteq> ''svg'' \<longrightarrow>
            fst (read_piece_svg E st css pc) = Inr ()
            \<and> SVG_PIECES (snd (read_piece_svg E st css pc)) = SVG_PIECES st)
         \<and> (isfile E orig \<and> drop (length orig - 3) orig = ''svg'' \<longrightarrow>
              (\<forall>svg frags. transform_viewBox E orig = Inr None \<and> compose_SVG E orig = Inr svg
                  \<and> fig_width svg = None \<and> SVG_PIECES st css = Some frags \<longrightarrow>
                 fst (read_piece_svg E st css pc) = Inr ()
                 \<and> SVG_PIECES (snd (read_piece_svg E st css pc)) css
                     = Some (AList.update (p_symbol pc) [] frags))
              \<and> (\<forall>vb e. transform_viewBox E orig = Inr vb \<and> compose_SVG E orig = Inl e \<longrightarrow>
                    fst (read_piece_svg E st css pc) = Inl e))"
  using assms by (auto simp add: read_piece_svg_def Let_def)

theorem read_piece_svg_failures_witness:
  "fst (read_piece_svg env_none reg_theme ''t'' white_king) = Inr ()
   \<and> SVG_PIECES (snd (read_piece_svg env_none reg_theme ''t'' white_king)) = SVG_PIECES reg_theme
   \<and> fst (read_piece_svg env_sizeless reg_theme ''t'' white_king) = Inr ()
   \<and> SVG_PIECES (snd (read_piece_svg env_sizeless reg_theme ''t'' white_king)) ''t''
       = Some [(''K'', [])]
   \<and> fst (read_piece_svg env_loader_fails reg_theme ''t'' white_king) = Inl AttributeError"
proof -
  have paths: "SVG_PATH_PIECES reg_theme ''t'' = Some [(''K'', ''wK.svg''), (''pr'', ''bR.png'')]"
    and sym: "map_of [(''K'', ''wK.svg''), (''pr'', ''bR.png'')] (p_symbol white_king)
               = Some ''wK.svg''"
    by (simp_all add: reg_theme_eq white_king_def)
  have orig: "king_asset_path
                = normpath E (path_join STATIC_PATH [''piece'', ''t'', ''..'', ''wK.svg''])"
    if "normpath E = (\<lambda>p. p)" for E :: env
    using that by (simp add: king_path)
  note a = read_piece_svg_failures[OF paths sym orig, of env_none, THEN conjunct1]
  note b = read_piece_svg_failures[OF paths sym orig, of env_sizeless, THEN conjunct2,
             THEN mp, THEN conjunct1, rule_format, of king_figure "[]"]
  note c = read_piece_svg_failures[OF paths sym orig, of env_loader_fails, THEN conjunct2,
             THEN mp, THEN conjunct2, rule_format, of None AttributeError]
  have "fst (read_piece_svg env_none reg_theme ''t'' white_king) = Inr ()
        \<and> SVG_PIECES (snd (read_piece_svg env_none reg_theme ''t'' white_king))
            = SVG_PIECES reg_theme"
    using a by (simp add: env_none_def)
  moreover
  have "fst (read_piece_svg env_sizeless reg_theme ''t'' white_king) = Inr ()
        \<and> SVG_PIECES (snd (read_piece_svg env_sizeless reg_theme ''t'' white_king)) ''t''
            = Some (AList.update (p_symbol white_king) [] [])"
    using b by (simp add: env_sizeless_def env_theme_def king_suffix king_figure_def reg_theme_eq)
  moreover
  have "fst (read_piece_svg env_loader_fails reg_theme ''t'' white_king) = Inl AttributeError"
    using c by (simp add: env_loader_fails_def env_theme_def king_suffix)
  ultimately show ?thesis by (simp add: white_king_def)
qed

text \<open>The handler prints before it raises again.\<close>

lemma read_piece_svg_prints_before_reraise:
  assumes "SVG_PATH_PIECES st css = Some paths"
      and "map_of paths (p_symbol pc) = Some piece_svg"
      and "orig = normpath E (path_join STATIC_PATH [''piece'', css, ''..'', piece_svg])"
      and "isfile E orig" and "drop (length orig - 3) orig = ''svg''"
      and "transform_viewBox E orig = Inr vb"
      and "compose_SVG E orig = Inl AttributeError"
  shows "printed (snd (read_piece_svg E st css pc))
           = printed st @ [''ERROR: Possible '' @ orig @ '' referenced in '' @ css
                           @ ''.css has no 'width/height'' @ [CHR 0x27]]"
  using assms by (simp add: read_piece_svg_def Let_def)

text \<open>
  C2 as stated fails: with a loader that raises \<^verbatim>\<open>AttributeError\<close> on the king's asset,
  \<^verbatim>\<open>read_piece_svg\<close> prints its message and the exception leaves the function.
\<close>

theorem read_piece_svg_reraises_counterexample:
  "fst (read_piece_svg env_loader_fails reg_theme ''t'' white_king) = Inl AttributeError
   \<and> printed (snd (read_piece_svg env_loader_fails reg_theme ''t'' white_king))
       = [''ERROR: Possible pychess-variants/static/piece/t/../wK.svg referenced in t.css has no 'width/height'' @ [CHR 0x27]]"
  by (simp add: read_piece_svg_def reg_theme_eq king_path king_suffix env_loader_fails_def
      env_theme_def white_king_def king_asset_path_def Let_def)

section \<open>BoardRenderer: the background\<close>














lemmas board_eval =
  board_def board_head_def background_step_def vector_background_def raster_background_def
  adjust_viewbox_def coordinate_elems_def square_elems_def piece_elems_def grid_def
  display_cell_def x_svg_def set_attr_def append_child_def append_children_def
  insert_child_def empty_board_def plain_options_def reg_t_def SQUARE_SIZE_def str_int_def
  path_join_def join2_def BOARD_IMAGES_def bg_intrinsic_size_def label_elem_def py_trunc_def
  viewbox_number_def xml_body_def
  DEFAULT_COLORS_def upto.simps Let_def

text \<open>A board of one square without a background: the square is drawn.\<close>

lemma board_plain_example:
  "board env_none reg_t ''t'' (Some (empty_board 1 1)) plain_options
     = (Inr (Elem ''svg''
               [(''xmlns'', [S ''http://www.w3.org/2000/svg'']),
                (''version'', [S ''1.1'']),
                (''xmlns:xlink'', [S ''http://www.w3.org/1999/xlink'']),
                (''viewBox'', [S ''0 0 45 45''])]
               None
               [Elem ''defs'' [] None [],
                Elem ''rect''
                  [(''x'', [S ''0'']), (''y'', [S ''0'']), (''width'', [S ''45'']),
                   (''height'', [S ''45'']), (''class'', [S ''square light'']),
                   (''stroke'', [S ''none'']), (''fill'', [S ''#f0d9b5''])]
                  None []]),
        [])"
  by (simp add: board_eval env_none_def str_eval)


section \<open>BoardRenderer: the attributes of the root\<close>

lemma bnd_Inr_iff: "(bnd r f = Inr y) = (\<exists>x. r = Inr x \<and> f x = Inr y)"
  by (cases r) simp_all

lemma attrib_simps [simp]:
  "attrib (append_child e c) = attrib e"
  "attrib (append_children e cs) = attrib e"
  "attrib (insert_child e i c) = attrib e"
  "attrib (set_attr e k v) = AList.update k v (attrib e)"
  by (simp_all add: append_child_def append_children_def insert_child_def set_attr_def)

lemma has_attr_cong: "attrib e = attrib e' \<Longrightarrow> has_attr e k = has_attr e' k"
  by (simp add: has_attr_def)

lemma x_svg_attrib:
  "has_attr (x_svg vx vy w h) ''viewBox''"
  "has_attr (x_svg vx vy w h) ''width'' = (w \<noteq> PNone)"
  "has_attr (x_svg vx vy w h) ''height'' = (h \<noteq> PNone)"
  by (simp_all add: has_attr_def x_svg_def Let_def update_conv')

lemma board_head_attrib:
  assumes "board_head E st css b opts = Inr (svg, lm, chk)"
  shows "attrib svg = attrib (x_svg (b_cols b * SQUARE_SIZE) (b_rows b * SQUARE_SIZE)
                               (o_width opts) (o_height opts))"
  using assms
  by (auto simp add: board_head_def Let_def bnd_Inr_iff
      split: option.splits if_splits sum.splits prod.splits)

lemma background_step_attrib:
  "attrib (bg_svg (background_step E b margin bi svg w h)) = attrib svg"
  by (auto simp add: background_step_def vector_background_def raster_background_def Let_def
      split: option.splits if_splits sum.splits prod.splits)

text \<open>Only the vector branch assigns the variables \<^verbatim>\<open>width\<close> and \<^verbatim>\<open>height\<close>.\<close>

lemma background_step_width:
  assumes "\<not> (some_text bi
              \<and> py_endswith (py_lower (case bi of Some n \<Rightarrow> n | None \<Rightarrow> [])) ''.svg'')"
  shows "bg_width (background_step E b margin bi svg w h) = w"
    and "bg_height (background_step E b margin bi svg w h) = h"
  using assms
  by (auto simp add: background_step_def raster_background_def Let_def
      split: option.splits prod.splits)

lemma adjust_viewbox_attrib:
  "has_attr svg ''viewBox'' \<Longrightarrow> has_attr (adjust_viewbox b margin co w h svg) ''viewBox''"
  "has_attr (adjust_viewbox b margin co w h svg) ''width''
     = (has_attr svg ''width'' \<or> (truthy co \<and> w \<noteq> PNone))"
  "has_attr (adjust_viewbox b margin co w h svg) ''height''
     = (has_attr svg ''height'' \<or> (truthy co \<and> h \<noteq> PNone))"
  by (auto simp add: has_attr_def adjust_viewbox_def Let_def update_conv')

lemma board_root:
  assumes "fst (board E st css (Some b) opts) = Inr doc"
  shows "\<exists>svg lm chk. board_head E st css b opts = Inr (svg, lm, chk)
          \<and> attrib doc = attrib (adjust_viewbox b (if truthy (o_coordinates opts) then 15 else 0)
               (o_coordinates opts)
               (bg_width (background_step E b (if truthy (o_coordinates opts) then 15 else 0)
                   (o_background_image opts) svg (o_width opts) (o_height opts)))
               (bg_height (background_step E b (if truthy (o_coordinates opts) then 15 else 0)
                   (o_background_image opts) svg (o_width opts) (o_height opts)))
               (bg_svg (background_step E b (if truthy (o_coordinates opts) then 15 else 0)
                   (o_background_image opts) svg (o_width opts) (o_height opts))))"
  using assms
  by (cases "board_head E st css b opts")
     (auto simp add: board_def Let_def bnd_Inr_iff)

text \<open>
  What does hold of the root of every returned document: it has a \<^verbatim>\<open>viewBox\<close>; it has
  \<^verbatim>\<open>width\<close> and \<^verbatim>\<open>height\<close> when the caller passed them; and it has them only then,
  unless coordinates are drawn over a vector background.
\<close>

lemma board_root_attributes:
  assumes "fst (board E st css (Some b) opts) = Inr doc"
  shows "has_attr doc ''viewBox''"
    and "o_width opts \<noteq> PNone \<Longrightarrow> has_attr doc ''width''"
    and "o_height opts \<noteq> PNone \<Longrightarrow> has_attr doc ''height''"
    and "\<not> truthy (o_coordinates opts)
         \<or> \<not> (some_text (o_background_image opts)
               \<and> py_endswith
                    (py_lower (case o_background_image opts of Some n \<Rightarrow> n | None \<Rightarrow> []))
                    ''.svg'') \<Longrightarrow>
         has_attr doc ''width'' = (o_width opts \<noteq> PNone)
         \<and> has_attr doc ''height'' = (o_height opts \<noteq> PNone)"
proof -
  let ?m = "if truthy (o_coordinates opts) then 15 else 0 :: int"
  from board_root[OF assms] obtain svg lm chk where
    head: "board_head E st css b opts = Inr (svg, lm, chk)" and
    doc: "attrib doc = attrib (adjust_viewbox b ?m (o_coordinates opts)
               (bg_width (background_step E b ?m
                   (o_background_image opts) svg (o_width opts) (o_height opts)))
               (bg_height (background_step E b ?m
                   (o_background_image opts) svg (o_width opts) (o_height opts)))
               (bg_svg (background_step E b ?m
                   (o_background_image opts) svg (o_width opts) (o_height opts))))"
    by blast
  let ?bg = "background_step E b ?m (o_background_image opts) svg (o_width opts) (o_height opts)"
  have root: "has_attr (bg_svg ?bg) k
                = has_attr (x_svg (b_cols b * SQUARE_SIZE) (b_rows b * SQUARE_SIZE)
                              (o_width opts) (o_height opts)) k" for k
    by (rule has_attr_cong) (simp add: background_step_attrib board_head_attrib[OF head])
  show "has_attr doc ''viewBox''"
    unfolding has_attr_cong[OF doc]
    by (rule adjust_viewbox_attrib(1)) (simp add: root x_svg_attrib)
  show "has_attr doc ''width''" if "o_width opts \<noteq> PNone"
    unfolding has_attr_cong[OF doc] adjust_viewbox_attrib(2) using that
    by (simp add: root x_svg_attrib)
  show "has_attr doc ''height''" if "o_height opts \<noteq> PNone"
    unfolding has_attr_cong[OF doc] adjust_viewbox_attrib(3) using that
    by (simp add: root x_svg_attrib)
  show "has_attr doc ''width'' = (o_width opts \<noteq> PNone)
         \<and> has_attr doc ''height'' = (o_height opts \<noteq> PNone)"
    if "\<not> truthy (o_coordinates opts)
         \<or> \<not> (some_text (o_background_image opts)
               \<and> py_endswith
                    (py_lower (case o_background_image opts of Some n \<Rightarrow> n | None \<Rightarrow> []))
                    ''.svg'')"
    unfolding has_attr_cong[OF doc] adjust_viewbox_attrib(2,3) using that
    by (auto simp add: root x_svg_attrib background_step_width)
qed

text \<open>
  C5. The claim fails where coordinates are drawn over a vector background whose root
  declares \<^verbatim>\<open>width\<close> and \<^verbatim>\<open>height\<close>: the vector branch assigns the attributes of the
  background to the variables \<^verbatim>\<open>width\<close> and \<^verbatim>\<open>height\<close> of the render call, and the
  coordinate block then finds them set. The caller passed neither, and the returned
  document carries both.
\<close>

theorem board_width_from_background:
  "o_width (plain_options\<lparr>o_coordinates := PInt 1, o_background_image := Some ''bg.svg''\<rparr>)
     = PNone
   \<and> o_height (plain_options\<lparr>o_coordinates := PInt 1, o_background_image := Some ''bg.svg''\<rparr>)
       = PNone
   \<and> (case fst (board env_background reg_t ''t'' (Some (empty_board 1 1))
                  (plain_options\<lparr>o_coordinates := PInt 1,
                                 o_background_image := Some ''bg.svg''\<rparr>)) of
         Inr doc \<Rightarrow> map_of (attrib doc) ''viewBox'' = Some [S ''0 0 75 75'']
                    \<and> map_of (attrib doc) ''width'' = Some [S ''75'']
                    \<and> map_of (attrib doc) ''height'' = Some [S ''75'']
       | Inl e \<Rightarrow> False)"
  by (simp add: board_eval env_background_def env_none_def bg_source_def plain_labels_def
      str_eval)

section \<open>BoardRenderer: the arrows of a document\<close>

lemma collect_Inr:
  "collect f xs = Inr ys \<Longrightarrow> x \<in> set xs \<Longrightarrow> \<exists>es. f x = Inr es \<and> set es \<subseteq> set ys"
proof (induction xs arbitrary: ys)
  case Nil
  then show ?case by simp
next
  case (Cons a xs)
  from Cons.prems(1) obtain as zs where
    a: "f a = Inr as" and zs: "collect f xs = Inr zs" and ys: "ys = as @ zs"
    by (auto simp add: bnd_Inr_iff)
  show ?case
  proof (cases "x = a")
    case True
    with a ys show ?thesis by auto
  next
    case False
    with Cons.prems(2) have "x \<in> set xs" by simp
    from Cons.IH[OF zs this] ys show ?thesis by auto
  qed
qed

lemma children_append_children [simp]: "children (append_children e cs) = children e @ cs"
  by (simp add: append_children_def)

text \<open>
  Every arrow of a render call that returns was rendered by \<open>arrow_elems\<close>, with the
  orientation, margin and borders of the call, and its elements are children of the
  returned document.
\<close>

lemma board_arrow_elems:
  assumes "fst (board E st css (Some b) opts) = Inr doc"
      and "arr \<in> set (o_arrows opts)"
  shows "\<exists>es. arrow_elems b (o_orientation opts \<noteq> o_flipped opts)
                 (if o_borders opts then 1 else 0)
                 (if truthy (o_coordinates opts) then 15 else 0)
                 (o_coordinates opts)
                 (if o_borders opts \<and> truthy (o_coordinates opts) then 1 else 0)
                 (o_colors opts) arr = Inr es
              \<and> set es \<subseteq> set (children doc)"
proof -
  let ?f = "arrow_elems b (o_orientation opts \<noteq> o_flipped opts)
                 (if o_borders opts then 1 else 0)
                 (if truthy (o_coordinates opts) then 15 else 0)
                 (o_coordinates opts)
                 (if o_borders opts \<and> truthy (o_coordinates opts) then 1 else 0)
                 (o_colors opts)"
  from assms(1) obtain svg sq la pc ars where
    ars: "collect ?f (o_arrows opts) = Inr ars"
    and doc: "doc = append_children svg (sq @ la @ pc @ ars)"
    by (cases "board_head E st css b opts")
       (auto simp add: board_def Let_def bnd_Inr_iff)
  from collect_Inr[OF ars assms(2)] doc show ?thesis by auto
qed

end
